theory Spec2Isabelle
  imports Main "HOL-Library.Word"
begin

unbundle bit_operations_syntax

section \<open>The controller of \<open>main.c\<close> as state transformers\<close>

text \<open>
  The program is firmware for an 8-bit AVR microcontroller. Every variable and every
  I/O register it touches is a \<open>uint8_t\<close>, modelled as an 8-bit word. Arithmetic in
  the C source is done after promotion to \<open>int\<close>; all intermediate values of the
  pattern functions stay below 256, so the same operations on 8-bit words give the
  same results, and the stores back into \<open>uint8_t\<close> objects (\<open>timeCounter += 1\<close>,
  the write of \<open>digit << 7\<close> to \<open>PORTA\<close>) truncate to 8 bits exactly as word
  arithmetic does.
\<close>

type_synonym u8 = "8 word"

subsection \<open>Bit positions of \<open>avr/io.h\<close>\<close>

text \<open>
  The bit names come from the device header of avr-libc, which is not part of the
  program. They have the values of the ATmega324 family; \<open>main\<close> itself tests the
  mode switch as \<open>PIND & 16\<close>, which agrees with \<open>PIND4 = 4\<close>.
\<close>

definition PIND4 :: nat where "PIND4 = 4"
definition OCIE1A :: nat where "OCIE1A = 1"
definition OCF1A :: nat where "OCF1A = 1"
definition CS10 :: nat where "CS10 = 0"
definition CS11 :: nat where "CS11 = 1"
definition CS12 :: nat where "CS12 = 2"
definition WGM12 :: nat where "WGM12 = 3"
definition WGM13 :: nat where "WGM13 = 4"
definition INT0 :: nat where "INT0 = 0"
definition INT1 :: nat where "INT1 = 1"
definition INTF0 :: nat where "INTF0 = 0"
definition INTF1 :: nat where "INTF1 = 1"

subsection \<open>Tables and the mode macros\<close>

definition seven_seg :: "u8 list" where
  "seven_seg = [8, 1, 64, 121, 84]"

definition pwm :: "u8 list" where
  "pwm = [230, 128, 26]"

text \<open>
  \<open>EXTENDED\<close> and \<open>NORMAL\<close> read the input register \<open>PIND\<close>. The register is an
  input of the environment, so it is an argument: one sample per handler invocation.
\<close>

definition EXTENDED :: "u8 \<Rightarrow> bool" where
  "EXTENDED pind \<longleftrightarrow>
     (pind AND push_bit PIND4 1) = push_bit PIND4 1 \<and> (pind AND 3) \<noteq> 3"

definition NORMAL :: "u8 \<Rightarrow> bool" where
  "NORMAL pind \<longleftrightarrow> (pind AND push_bit PIND4 1) = 0 \<and> (pind AND 3) \<noteq> 3"

subsection \<open>The machine state\<close>

text \<open>
  One field per global variable and per register that the handlers and \<open>display\<close>
  write. A register field holds the value last written to it by the program.
\<close>

record mcu =
  PORTA :: u8
  PORTC :: u8
  OCR0B :: u8
  TCCR1B :: u8
  TIMSK1 :: u8
  TIFR1 :: u8
  EIMSK :: u8
  EIFR :: u8
  digit :: u8
  indexNumber :: u8
  timeCounter :: u8
  finished :: u8

subsection \<open>\<open>display\<close>\<close>

text \<open>
  \<open>seven_seg\<close> has five entries; reading it at an index of 5 or more is undefined
  behaviour in C, which is the result \<open>None\<close>. The table is only read when
  \<open>finished\<close> is 0.
\<close>

definition display :: "u8 \<Rightarrow> u8 \<Rightarrow> u8 \<Rightarrow> mcu \<Rightarrow> mcu option" where
  "display indexNumber' digit' finished' s =
     (if finished' = 0 then
        (if unat indexNumber' < length seven_seg
         then Some (s\<lparr>PORTA := (seven_seg ! unat indexNumber' AND 0x7F) OR push_bit 7 digit'\<rparr>)
         else None)
      else Some (s\<lparr>PORTA := 63 OR push_bit 7 digit'\<rparr>))"

subsection \<open>The three pattern functions\<close>

definition washCycle :: "u8 \<Rightarrow> u8" where
  "washCycle tc =
     (if (tc div 2) mod 16 < 8 then push_bit (unat ((tc div 2) mod 4)) 1
      else 15)"

definition rinseCycle :: "u8 \<Rightarrow> u8" where
  "rinseCycle tc =
     (if (tc div 2) mod 16 < 8 then push_bit (unat (3 - (tc div 2) mod 4)) 1
      else if tc mod 4 < 2 then 15
      else 0)"

definition spinCycle :: "u8 \<Rightarrow> u8" where
  "spinCycle tc =
     (if (tc div 2) mod 16 < 4 then push_bit (unat ((tc div 2) mod 4)) 1
      else if (tc div 2) mod 16 < 8 then push_bit (unat (3 - (tc div 2) mod 4)) 1
      else if tc mod 2 = 0 then 15
      else 0)"

subsection \<open>\<open>reset\<close> and \<open>startSystem\<close>\<close>

definition reset :: "mcu \<Rightarrow> mcu" where
  "reset s = s\<lparr>
     timeCounter := 0,
     TIMSK1 := push_bit OCIE1A 0,
     TIFR1 := push_bit OCF1A 1,
     OCR0B := 255,
     PORTC := 0,
     TCCR1B := push_bit CS12 0 OR push_bit CS11 0 OR push_bit CS10 0,
     EIMSK := push_bit INT0 1 OR push_bit INT1 1,
     EIFR := push_bit INTF0 1 OR push_bit INTF1 1\<rparr>"

definition startSystem :: "mcu \<Rightarrow> mcu" where
  "startSystem s = s\<lparr>
     timeCounter := 0,
     PORTC := 1,
     OCR0B := pwm ! 0,
     TCCR1B := push_bit WGM13 0 OR push_bit WGM12 1 OR push_bit CS12 1
               OR push_bit CS11 0 OR push_bit CS10 0,
     TIMSK1 := push_bit OCIE1A 1,
     TIFR1 := push_bit OCF1A 1,
     EIMSK := push_bit INT0 0 OR push_bit INT1 1,
     EIFR := push_bit INTF0 1 OR push_bit INTF1 1\<rparr>"

subsection \<open>The interrupt handlers\<close>

definition INT0_vect :: "u8 \<Rightarrow> mcu \<Rightarrow> mcu" where
  "INT0_vect pind s =
     (let s1 = (if EXTENDED pind \<or> NORMAL pind then startSystem s else s)
      in if finished s1 = 1 then s1\<lparr>finished := 0\<rparr> else s1)"

definition INT1_vect :: "mcu \<Rightarrow> mcu" where
  "INT1_vect s = (reset s)\<lparr>finished := 0\<rparr>"

definition TIMER1_COMPA_vect :: "u8 \<Rightarrow> mcu \<Rightarrow> mcu" where
  "TIMER1_COMPA_vect pind s =
     (if EXTENDED pind then
        (let s1 = s\<lparr>timeCounter := timeCounter s + 1\<rparr> in
         if timeCounter s1 < 32 then s1\<lparr>PORTC := washCycle (timeCounter s1)\<rparr>
         else if timeCounter s1 < 96 then
           s1\<lparr>OCR0B := pwm ! 1, PORTC := rinseCycle (timeCounter s1)\<rparr>
         else if timeCounter s1 < 128 then
           s1\<lparr>OCR0B := pwm ! 2, PORTC := spinCycle (timeCounter s1)\<rparr>
         else (reset s1)\<lparr>finished := 1\<rparr>)
      else if NORMAL pind then
        (let s1 = s\<lparr>timeCounter := timeCounter s + 1\<rparr> in
         if timeCounter s1 < 32 then s1\<lparr>PORTC := washCycle (timeCounter s1)\<rparr>
         else if timeCounter s1 < 64 then
           s1\<lparr>OCR0B := pwm ! 1, PORTC := rinseCycle (timeCounter s1)\<rparr>
         else if timeCounter s1 < 96 then
           s1\<lparr>OCR0B := pwm ! 2, PORTC := spinCycle (timeCounter s1)\<rparr>
         else (reset s1)\<lparr>finished := 1\<rparr>)
      else s)"

subsection \<open>Delivery of events\<close>

text \<open>
  The hardware runs a handler only while its interrupt is enabled: the two buttons
  through the bits \<open>INT0\<close> and \<open>INT1\<close> of \<open>EIMSK\<close>, the periodic tick through
  \<open>OCIE1A\<close> of \<open>TIMSK1\<close> with a clock selected in the low three bits of \<open>TCCR1B\<close>.
  \<open>startSystem\<close> and \<open>reset\<close> switch the cycle on and off by writing these
  registers, so they carry what the specification calls \<open>active\<close> and the enabling
  of the Start trigger.
\<close>

datatype event = Start | Reset | Tick

definition active :: "mcu \<Rightarrow> bool" where
  "active s \<longleftrightarrow> bit (TIMSK1 s) OCIE1A \<and> (TCCR1B s AND 7) \<noteq> 0"

definition start_enabled :: "mcu \<Rightarrow> bool" where
  "start_enabled s \<longleftrightarrow> bit (EIMSK s) INT0"

definition reset_enabled :: "mcu \<Rightarrow> bool" where
  "reset_enabled s \<longleftrightarrow> bit (EIMSK s) INT1"

fun fire :: "event \<Rightarrow> u8 \<Rightarrow> mcu \<Rightarrow> mcu" where
  "fire Start pind s = (if start_enabled s then INT0_vect pind s else s)"
| "fire Reset pind s = (if reset_enabled s then INT1_vect s else s)"
| "fire Tick pind s = (if active s then TIMER1_COMPA_vect pind s else s)"

text \<open>\<open>ticks n pind s\<close>: \<open>n\<close> tick events in a row with the selector held at \<open>pind\<close>.\<close>

primrec ticks :: "nat \<Rightarrow> u8 \<Rightarrow> mcu \<Rightarrow> mcu" where
  "ticks 0 pind s = s"
| "ticks (Suc n) pind s = fire Tick pind (ticks n pind s)"

text \<open>
  The registers and variables as \<open>main\<close> leaves them when it enters its loop.
  Globals start at zero, and a register that \<open>main\<close> does not write has its
  power-on value 0.
\<close>

definition main_init :: mcu where
  "main_init = \<lparr>
     PORTA = 0, PORTC = 0, OCR0B = 255,
     TCCR1B = push_bit WGM13 0 OR push_bit WGM12 1 OR push_bit CS12 0
              OR push_bit CS11 0 OR push_bit CS10 0,
     TIMSK1 = 0, TIFR1 = 0,
     EIMSK = push_bit INT0 1 OR push_bit INT1 1,
     EIFR = push_bit INTF0 1 OR push_bit INTF1 1,
     digit = 0, indexNumber = 0, timeCounter = 0, finished = 0\<rparr>"

subsection \<open>Observations and closed forms used in the proofs\<close>

text \<open>
  \<open>display\<close> packs two things into \<open>PORTA\<close>: the seven segment lines in bits 0 to 6
  and the digit select in bit 7. \<open>segments\<close> reads the segment lines back.
\<close>

definition segments :: "mcu \<Rightarrow> u8" where
  "segments s = PORTA s AND 0x7F"

text \<open>
  \<open>tick_result a b m s\<close> is the body shared by the two branches of the tick handler,
  with the counter already incremented to \<open>m\<close> and the rinse and spin thresholds
  \<open>a\<close> and \<open>b\<close> (64 and 96 in the normal branch, 96 and 128 in the extended one).
  \<open>phase_trace a n s\<close> is the state \<open>n\<close> ticks after a state \<open>s\<close> whose counter
  is 0. Both are proved equal to what the handler computes before they are used.
\<close>

definition tick_result :: "nat \<Rightarrow> nat \<Rightarrow> nat \<Rightarrow> mcu \<Rightarrow> mcu" where
  "tick_result a b m s =
     (if m < 32 then
        s\<lparr>timeCounter := of_nat m, PORTC := washCycle (of_nat m)\<rparr>
      else if m < a then
        s\<lparr>timeCounter := of_nat m, OCR0B := pwm ! 1, PORTC := rinseCycle (of_nat m)\<rparr>
      else if m < b then
        s\<lparr>timeCounter := of_nat m, OCR0B := pwm ! 2, PORTC := spinCycle (of_nat m)\<rparr>
      else (reset s)\<lparr>finished := 1\<rparr>)"

definition phase_trace :: "nat \<Rightarrow> nat \<Rightarrow> mcu \<Rightarrow> mcu" where
  "phase_trace a n s = s\<lparr>
     timeCounter := of_nat n,
     OCR0B := (if n < 32 then OCR0B s else if n < a then pwm ! 1 else pwm ! 2),
     PORTC := (if n = 0 then PORTC s else if n < 32 then washCycle (of_nat n)
               else if n < a then rinseCycle (of_nat n) else spinCycle (of_nat n))\<rparr>"

section \<open>Basic facts\<close>

lemmas io_bits =
  PIND4_def OCIE1A_def OCF1A_def CS10_def CS11_def CS12_def WGM12_def WGM13_def
  INT0_def INT1_def INTF0_def INTF1_def

subsection \<open>Modes\<close>

lemma NORMAL_not_EXTENDED: "NORMAL p \<Longrightarrow> \<not> EXTENDED p"
  by (auto simp: NORMAL_def EXTENDED_def PIND4_def)

lemma invalid_modes: "(p AND 3) = 3 \<Longrightarrow> \<not> EXTENDED p \<and> \<not> NORMAL p"
  by (simp add: EXTENDED_def NORMAL_def)

lemma mode_samples: "NORMAL 0" "EXTENDED 16" "(3 AND 3) = (3::u8)"
  by (simp_all add: NORMAL_def EXTENDED_def PIND4_def)

subsection \<open>Comparisons of the 8-bit counter\<close>

lemma u8_of_nat_less_num:
  "m < 256 \<Longrightarrow> (of_nat m :: u8) < 32 \<longleftrightarrow> m < 32"
  "m < 256 \<Longrightarrow> (of_nat m :: u8) < 64 \<longleftrightarrow> m < 64"
  "m < 256 \<Longrightarrow> (of_nat m :: u8) < 96 \<longleftrightarrow> m < 96"
  "m < 256 \<Longrightarrow> (of_nat m :: u8) < 128 \<longleftrightarrow> m < 128"
  by (simp_all add: word_less_nat_alt unat_of_nat)

lemma thresholds:
  "\<not> (c::u8) < 128 \<Longrightarrow> \<not> c < 96"
  "\<not> (c::u8) < 96 \<Longrightarrow> \<not> c < 64"
  "\<not> (c::u8) < 64 \<Longrightarrow> \<not> c < 32"
  by (simp_all add: word_less_nat_alt)

lemma u8_le_1: "(f::u8) \<le> 1 \<Longrightarrow> f \<noteq> 1 \<Longrightarrow> f = 0"
  by (auto simp add: word_le_nat_alt word_unat_eq_iff)

section \<open>The pattern functions\<close>

subsection \<open>Point values\<close>

lemma pow2_ne_15: "k < 4 \<Longrightarrow> (2::u8) ^ k \<noteq> 15"
proof -
  assume "k < 4"
  then consider "k = 0" | "k = 1" | "k = 2" | "k = 3"
    by linarith
  then show ?thesis
    by cases simp_all
qed

lemma washCycle_15_iff: "washCycle t = 15 \<longleftrightarrow> \<not> (t div 2) mod 16 < 8"
proof -
  have "unat ((t div 2) mod 4) < 4"
    by (simp add: unat_mod)
  then show ?thesis
    by (simp add: washCycle_def pow2_ne_15)
qed

lemma washCycle_below_16: "t < 16 \<Longrightarrow> washCycle t \<noteq> 15"
  unfolding washCycle_15_iff
  by (simp add: word_less_nat_alt unat_div unat_mod)

text \<open>
  C3, as stated: \<open>washCycle 0 = 1\<close>, \<open>washCycle 8 = 2\<close> and \<open>washCycle 16 = 0b1111\<close>.
  The value at 8 is not 2: the half tick 4 is back at position \<open>4 mod 4 = 0\<close>, so
  the function returns 1 there.
\<close>

theorem washCycle_points_counterexample:
  "\<not> (washCycle 0 = 1 \<and> washCycle 8 = 2 \<and> washCycle 16 = 15)"
  by (simp add: washCycle_def)

text \<open>
  C3, amended: \<open>washCycle 0 = 1\<close>, \<open>washCycle 8 = 1\<close> and \<open>washCycle 16 = 0b1111\<close>,
  and 16 is the first counter value at which all four lights are on.
\<close>

theorem washCycle_points:
  "washCycle 0 = 1 \<and> washCycle 8 = 1 \<and> washCycle 16 = 15
   \<and> (\<forall>t<16. washCycle t \<noteq> 15)"
  by (simp add: washCycle_below_16) (simp add: washCycle_def)

theorem washCycle_points_witness:
  "(15::u8) < 16 \<and> washCycle 15 \<noteq> 15 \<and> washCycle 16 = 15"
proof -
  have "(15::u8) < 16"
    by simp
  moreover from washCycle_points have "\<forall>t<16. washCycle t \<noteq> 15" and "washCycle 16 = 15"
    by blast+
  ultimately show ?thesis
    by blast
qed

text \<open>
  C4, as stated: \<open>rinseCycle 0 = 0b1000\<close>, \<open>rinseCycle 16 = 0b1111\<close>,
  \<open>rinseCycle 18 = 0b1111\<close> and \<open>rinseCycle 20 = 0\<close>. The last two are the wrong
  way round: the blink is on while \<open>tick mod 4 < 2\<close>, and \<open>18 mod 4 = 2\<close>,
  \<open>20 mod 4 = 0\<close>.
\<close>

theorem rinseCycle_points_counterexample:
  "\<not> (rinseCycle 0 = 8 \<and> rinseCycle 16 = 15 \<and> rinseCycle 18 = 15 \<and> rinseCycle 20 = 0)"
  by (simp add: rinseCycle_def)

text \<open>
  C4, amended: \<open>rinseCycle 0 = 0b1000\<close>, \<open>rinseCycle 16 = 0b1111\<close>,
  \<open>rinseCycle 18 = 0\<close> and \<open>rinseCycle 20 = 0b1111\<close>.
\<close>

theorem rinseCycle_points:
  "rinseCycle 0 = 8 \<and> rinseCycle 16 = 15 \<and> rinseCycle 18 = 0 \<and> rinseCycle 20 = 15"
  by (simp add: rinseCycle_def)

subsection \<open>Periodicity\<close>

text \<open>
  Adding 32 to an 8-bit counter, with wrap-around at 256, changes none of the
  quantities the pattern functions look at.
\<close>

lemma nat_wrap_mod_32: "(n + 32) mod 256 mod 32 = n mod (32::nat)"
proof -
  have "(n + 32) mod 256 mod 32 = (n + 32) mod 32"
    by (rule mod_mod_cancel) simp
  then show ?thesis by simp
qed

lemma nat_half_mod_16: "(n::nat) div 2 mod 16 = n mod 32 div 2"
  using mod_mult2_eq [of n 2 16] by simp

lemma nat_half_mod_4: "(n::nat) div 2 mod 4 = n mod 32 div 2 mod 4"
proof -
  have "n div 2 mod 16 mod 4 = n div 2 mod 4"
    by (rule mod_mod_cancel) simp
  then show ?thesis by (simp only: nat_half_mod_16)
qed

lemma nat_mod_4: "(n::nat) mod 4 = n mod 32 mod 4"
  by (rule mod_mod_cancel [symmetric]) simp

lemma nat_mod_2: "(n::nat) mod 2 = n mod 32 mod 2"
  by (rule mod_mod_cancel [symmetric]) simp

lemma unat_plus_32: "unat (t + 32 :: u8) mod 32 = unat t mod 32"
  by (simp add: unat_word_ariths nat_wrap_mod_32)

lemma half_mod_16_period: "((t + 32) div 2) mod 16 = (t div 2) mod (16::u8)"
proof (rule word_unat_eq_iff [THEN iffD2])
  have "unat ((t + 32) div 2 mod 16) = unat (t + 32) div 2 mod 16"
    by (simp add: unat_div unat_mod)
  also have "\<dots> = unat t div 2 mod 16"
    by (simp only: nat_half_mod_16 unat_plus_32)
  also have "\<dots> = unat (t div 2 mod 16)"
    by (simp add: unat_div unat_mod)
  finally show "unat ((t + 32) div 2 mod 16) = unat (t div 2 mod 16)" .
qed

lemma half_mod_4_period: "((t + 32) div 2) mod 4 = (t div 2) mod (4::u8)"
proof (rule word_unat_eq_iff [THEN iffD2])
  have "unat ((t + 32) div 2 mod 4) = unat (t + 32) div 2 mod 4"
    by (simp add: unat_div unat_mod)
  also have "\<dots> = unat t div 2 mod 4"
    by (subst nat_half_mod_4, subst (2) nat_half_mod_4) (simp only: unat_plus_32)
  also have "\<dots> = unat (t div 2 mod 4)"
    by (simp add: unat_div unat_mod)
  finally show "unat ((t + 32) div 2 mod 4) = unat (t div 2 mod 4)" .
qed

lemma mod_4_period: "(t + 32) mod 4 = t mod (4::u8)"
proof (rule word_unat_eq_iff [THEN iffD2])
  have "unat ((t + 32) mod 4) = unat (t + 32) mod 4"
    by (simp add: unat_mod)
  also have "\<dots> = unat t mod 4"
    by (subst nat_mod_4, subst (2) nat_mod_4) (simp only: unat_plus_32)
  also have "\<dots> = unat (t mod 4)"
    by (simp add: unat_mod)
  finally show "unat ((t + 32) mod 4) = unat (t mod 4)" .
qed

lemma mod_2_period: "(t + 32) mod 2 = t mod (2::u8)"
proof (rule word_unat_eq_iff [THEN iffD2])
  have "unat ((t + 32) mod 2) = unat (t + 32) mod 2"
    by (simp add: unat_mod)
  also have "\<dots> = unat t mod 2"
    by (subst nat_mod_2, subst (2) nat_mod_2) (simp only: unat_plus_32)
  also have "\<dots> = unat (t mod 2)"
    by (simp add: unat_mod)
  finally show "unat ((t + 32) mod 2) = unat (t mod 2)" .
qed

lemma washCycle_period: "washCycle (t + 32) = washCycle t"
  by (simp only: washCycle_def half_mod_16_period half_mod_4_period)

lemma rinseCycle_period: "rinseCycle (t + 32) = rinseCycle t"
  by (simp only: rinseCycle_def half_mod_16_period half_mod_4_period mod_4_period)

lemma spinCycle_period: "spinCycle (t + 32) = spinCycle t"
  by (simp only: spinCycle_def half_mod_16_period half_mod_4_period mod_2_period)

text \<open>
  C10: each of the three pattern functions has period 32 on 8-bit counters; the
  addition is that of \<open>uint8_t\<close>, modulo 256.
\<close>

theorem pattern_period_32:
  "washCycle (t + 32) = washCycle t
   \<and> rinseCycle (t + 32) = rinseCycle t
   \<and> spinCycle (t + 32) = spinCycle t"
  by (intro conjI washCycle_period rinseCycle_period spinCycle_period)

section \<open>The handlers\<close>

subsection \<open>What \<open>reset\<close> and a Start edge establish\<close>

lemma reset_timeCounter_upd: "reset (s\<lparr>timeCounter := c\<rparr>) = reset s"
  by (simp add: reset_def)

lemma not_active_reset: "\<not> active ((reset s)\<lparr>finished := f\<rparr>)"
  by (simp add: active_def reset_def io_bits)

lemma done_state:
  "timeCounter ((reset s)\<lparr>finished := f\<rparr>) = 0"
  "PORTC ((reset s)\<lparr>finished := f\<rparr>) = 0"
  "OCR0B ((reset s)\<lparr>finished := f\<rparr>) = 255"
  "finished ((reset s)\<lparr>finished := f\<rparr>) = f"
  "start_enabled ((reset s)\<lparr>finished := f\<rparr>)"
  "reset_enabled ((reset s)\<lparr>finished := f\<rparr>)"
  by (simp_all add: reset_def start_enabled_def reset_enabled_def io_bits)

lemma INT0_vect_started:
  assumes "EXTENDED p \<or> NORMAL p"
  shows "active (INT0_vect p s)" and "timeCounter (INT0_vect p s) = 0"
    and "OCR0B (INT0_vect p s) = pwm ! 0" and "PORTC (INT0_vect p s) = 1"
    and "finished (INT0_vect p s) = (if finished s = 1 then 0 else finished s)"
  using assms by (simp_all add: INT0_vect_def Let_def startSystem_def active_def io_bits)

lemma finished_invariant: "finished s \<le> 1 \<Longrightarrow> finished (fire e p s) \<le> 1"
  by (cases e)
     (simp_all add: INT0_vect_def INT1_vect_def TIMER1_COMPA_vect_def Let_def
        startSystem_def reset_def)

lemma main_init_facts:
  "finished main_init = 0" "\<not> active main_init" "start_enabled main_init"
  by (simp_all add: main_init_def active_def start_enabled_def io_bits)

subsection \<open>One tick, by the value of the counter\<close>

lemma tick_NORMAL_at:
  assumes "NORMAL p" and "timeCounter s = of_nat n" and "Suc n < 256"
  shows "TIMER1_COMPA_vect p s = tick_result 64 96 (Suc n) s"
proof -
  have c: "timeCounter s + 1 = of_nat (Suc n)"
    by (simp add: assms(2))
  show ?thesis
    unfolding TIMER1_COMPA_vect_def Let_def tick_result_def
    using assms(1,3)
    by (simp add: NORMAL_not_EXTENDED c u8_of_nat_less_num reset_timeCounter_upd
        del: of_nat_Suc)
qed

lemma tick_EXTENDED_at:
  assumes "EXTENDED p" and "timeCounter s = of_nat n" and "Suc n < 256"
  shows "TIMER1_COMPA_vect p s = tick_result 96 128 (Suc n) s"
proof -
  have c: "timeCounter s + 1 = of_nat (Suc n)"
    by (simp add: assms(2))
  show ?thesis
    unfolding TIMER1_COMPA_vect_def Let_def tick_result_def
    using assms(1,3)
    by (simp add: c u8_of_nat_less_num reset_timeCounter_upd del: of_nat_Suc)
qed

subsection \<open>A whole cycle\<close>

lemma active_phase_trace: "active (phase_trace a n s) = active s"
  by (simp add: phase_trace_def active_def)

lemma timeCounter_phase_trace: "timeCounter (phase_trace a n s) = of_nat n"
  by (simp add: phase_trace_def)

lemma finished_phase_trace: "finished (phase_trace a n s) = finished s"
  by (simp add: phase_trace_def)

lemma OCR0B_phase_trace:
  "OCR0B (phase_trace a n s) =
     (if n < 32 then OCR0B s else if n < a then pwm ! 1 else pwm ! 2)"
  by (simp add: phase_trace_def)

lemma reset_phase_trace: "reset (phase_trace a n s) = reset s"
  by (simp add: phase_trace_def reset_def)

lemma tick_result_phase_trace:
  assumes "32 \<le> a" and "a \<le> b" and "Suc n < b"
  shows "tick_result a b (Suc n) (phase_trace a n s) = phase_trace a (Suc n) s"
  using assms by (auto simp add: tick_result_def phase_trace_def simp del: of_nat_Suc)

lemma tick_result_finish:
  assumes "32 \<le> a" and "a \<le> b"
  shows "tick_result a b b (phase_trace a n s) = (reset s)\<lparr>finished := 1\<rparr>"
  using assms by (simp add: tick_result_def reset_phase_trace)

lemma ticks_inactive: "\<not> active s \<Longrightarrow> ticks k p s = s"
  by (induction k) simp_all

lemma ticks_add: "ticks (m + n) p s = ticks m p (ticks n p s)"
  by (induction m) simp_all

lemma cycle_run:
  assumes step: "\<And>s n. timeCounter s = of_nat n \<Longrightarrow> Suc n < 256 \<Longrightarrow>
                   TIMER1_COMPA_vect p s = tick_result a b (Suc n) s"
    and ab: "32 \<le> a" "a \<le> b" "b < 256"
    and s: "active s" "timeCounter s = 0"
  shows "n < b \<Longrightarrow> ticks n p s = phase_trace a n s"
proof (induction n)
  case 0
  show ?case using s(2) by (simp add: phase_trace_def)
next
  case (Suc n)
  then have ih: "ticks n p s = phase_trace a n s"
    by simp
  have "ticks (Suc n) p s = fire Tick p (phase_trace a n s)"
    by (simp only: ticks.simps ih)
  also have "\<dots> = TIMER1_COMPA_vect p (phase_trace a n s)"
    using s(1) by (simp add: active_phase_trace)
  also have "\<dots> = tick_result a b (Suc n) (phase_trace a n s)"
    using Suc.prems ab(3) by (intro step timeCounter_phase_trace) simp
  also have "\<dots> = phase_trace a (Suc n) s"
    using ab(1,2) Suc.prems by (rule tick_result_phase_trace)
  finally show ?case .
qed

lemma cycle_finish:
  assumes step: "\<And>s n. timeCounter s = of_nat n \<Longrightarrow> Suc n < 256 \<Longrightarrow>
                   TIMER1_COMPA_vect p s = tick_result a b (Suc n) s"
    and ab: "32 \<le> a" "a \<le> b" "b < 256"
    and s: "active s" "timeCounter s = 0"
  shows "ticks b p s = (reset s)\<lparr>finished := 1\<rparr>"
proof -
  from ab(1,2) obtain m where b: "b = Suc m"
    by (cases b) auto
  have "ticks m p s = phase_trace a m s"
    using cycle_run [OF step ab s, of m] b by simp
  then have "ticks b p s = fire Tick p (phase_trace a m s)"
    by (simp only: b ticks.simps)
  also have "\<dots> = TIMER1_COMPA_vect p (phase_trace a m s)"
    using s(1) by (simp add: active_phase_trace)
  also have "\<dots> = tick_result a b (Suc m) (phase_trace a m s)"
    using ab(3) b by (intro step timeCounter_phase_trace) simp
  also have "\<dots> = tick_result a b b (phase_trace a m s)"
    by (simp only: b)
  also have "\<dots> = (reset s)\<lparr>finished := 1\<rparr>"
    using ab(1,2) by (rule tick_result_finish)
  finally show ?thesis .
qed

lemma cycle_after:
  assumes step: "\<And>s n. timeCounter s = of_nat n \<Longrightarrow> Suc n < 256 \<Longrightarrow>
                   TIMER1_COMPA_vect p s = tick_result a b (Suc n) s"
    and ab: "32 \<le> a" "a \<le> b" "b < 256"
    and s: "active s" "timeCounter s = 0"
    and n: "b \<le> n"
  shows "ticks n p s = (reset s)\<lparr>finished := 1\<rparr>"
proof -
  from n obtain k where k: "n = k + b"
    by (metis le_add_diff_inverse2)
  have "ticks b p s = (reset s)\<lparr>finished := 1\<rparr>"
    using step ab s by (rule cycle_finish)
  then have "ticks n p s = ticks k p ((reset s)\<lparr>finished := 1\<rparr>)"
    by (simp only: k ticks_add)
  also have "\<dots> = (reset s)\<lparr>finished := 1\<rparr>"
    by (rule ticks_inactive [OF not_active_reset])
  finally show ?thesis .
qed

lemma normal_ticks:
  "NORMAL p \<Longrightarrow> n < 96 \<Longrightarrow>
     ticks n p (INT0_vect p s) = phase_trace 64 n (INT0_vect p s)"
  by (rule cycle_run [where b = 96])
     (simp_all add: tick_NORMAL_at INT0_vect_started)

lemma normal_done:
  "NORMAL p \<Longrightarrow> 96 \<le> n \<Longrightarrow>
     ticks n p (INT0_vect p s) = (reset (INT0_vect p s))\<lparr>finished := 1\<rparr>"
  by (rule cycle_after [where a = 64 and b = 96])
     (simp_all add: tick_NORMAL_at INT0_vect_started)

lemma extended_ticks:
  "EXTENDED p \<Longrightarrow> n < 128 \<Longrightarrow>
     ticks n p (INT0_vect p s) = phase_trace 96 n (INT0_vect p s)"
  by (rule cycle_run [where b = 128])
     (simp_all add: tick_EXTENDED_at INT0_vect_started)

lemma extended_done:
  "EXTENDED p \<Longrightarrow> 128 \<le> n \<Longrightarrow>
     ticks n p (INT0_vect p s) = (reset (INT0_vect p s))\<lparr>finished := 1\<rparr>"
  by (rule cycle_after [where a = 96 and b = 128])
     (simp_all add: tick_EXTENDED_at INT0_vect_started)

section \<open>The cycle\<close>

text \<open>
  C1: after a Start edge, with only ticks following and the selector held, the
  machine is still running with \<open>finished\<close> clear after every number of ticks below
  96 in normal mode (128 in extended mode), the counter equal to the number of
  ticks; the 96th (128th) tick puts it into the finished state, which is the state
  after \<open>reset\<close> with \<open>finished\<close> set, and later ticks find it there. The variable
  \<open>finished\<close> only ever holds 0 or 1, which is the hypothesis on the state before
  the Start edge.
\<close>

theorem cycle_length:
  assumes "finished s \<le> 1"
  shows "(NORMAL p \<longrightarrow>
            (\<forall>n<96. active (ticks n p (INT0_vect p s))
                   \<and> finished (ticks n p (INT0_vect p s)) = 0
                   \<and> timeCounter (ticks n p (INT0_vect p s)) = of_nat n)
          \<and> (\<forall>n\<ge>96. ticks n p (INT0_vect p s) = (reset (INT0_vect p s))\<lparr>finished := 1\<rparr>))
       \<and> (EXTENDED p \<longrightarrow>
            (\<forall>n<128. active (ticks n p (INT0_vect p s))
                   \<and> finished (ticks n p (INT0_vect p s)) = 0
                   \<and> timeCounter (ticks n p (INT0_vect p s)) = of_nat n)
          \<and> (\<forall>n\<ge>128. ticks n p (INT0_vect p s) = (reset (INT0_vect p s))\<lparr>finished := 1\<rparr>))"
proof -
  have f0: "EXTENDED p \<or> NORMAL p \<Longrightarrow> finished (INT0_vect p s) = 0"
    using assms by (auto simp add: INT0_vect_started u8_le_1)
  show ?thesis
    by (simp add: normal_ticks normal_done extended_ticks extended_done
        active_phase_trace finished_phase_trace timeCounter_phase_trace
        INT0_vect_started(1) f0)
qed

theorem cycle_length_witness:
  "finished main_init \<le> 1 \<and> NORMAL 0 \<and> EXTENDED 16
   \<and> active (ticks 95 0 (INT0_vect 0 main_init))
   \<and> finished (ticks 95 0 (INT0_vect 0 main_init)) = 0
   \<and> finished (ticks 96 0 (INT0_vect 0 main_init)) = 1
   \<and> \<not> active (ticks 96 0 (INT0_vect 0 main_init))
   \<and> active (ticks 127 16 (INT0_vect 16 main_init))
   \<and> finished (ticks 127 16 (INT0_vect 16 main_init)) = 0
   \<and> finished (ticks 128 16 (INT0_vect 16 main_init)) = 1
   \<and> \<not> active (ticks 128 16 (INT0_vect 16 main_init))"
proof -
  have f: "finished main_init \<le> 1"
    by (simp add: main_init_facts)
  from cycle_length [OF f, of 0] mode_samples(1)
  have "active (ticks 95 0 (INT0_vect 0 main_init))
      \<and> finished (ticks 95 0 (INT0_vect 0 main_init)) = 0"
    and "ticks 96 0 (INT0_vect 0 main_init) = (reset (INT0_vect 0 main_init))\<lparr>finished := 1\<rparr>"
    by simp_all
  moreover from cycle_length [OF f, of 16] mode_samples(2)
  have "active (ticks 127 16 (INT0_vect 16 main_init))
      \<and> finished (ticks 127 16 (INT0_vect 16 main_init)) = 0"
    and "ticks 128 16 (INT0_vect 16 main_init) = (reset (INT0_vect 16 main_init))\<lparr>finished := 1\<rparr>"
    by simp_all
  ultimately show ?thesis
    using f mode_samples(1,2) by (simp add: not_active_reset)
qed

text \<open>
  C8: in a cycle with the selector held, the duty register \<open>OCR0B\<close> holds
  \<open>pwm[0]\<close> (10 percent) while the counter is below 32, \<open>pwm[1]\<close> (50 percent) from
  32 on, and \<open>pwm[2]\<close> (90 percent) from 64 on in normal mode and from 96 on in
  extended mode.
\<close>

theorem duty_cycle_schedule:
  "(NORMAL p \<longrightarrow>
      (\<forall>n<96. timeCounter (ticks n p (INT0_vect p s)) = of_nat n
           \<and> OCR0B (ticks n p (INT0_vect p s)) =
               (if n < 32 then pwm ! 0 else if n < 64 then pwm ! 1 else pwm ! 2)))
   \<and> (EXTENDED p \<longrightarrow>
      (\<forall>n<128. timeCounter (ticks n p (INT0_vect p s)) = of_nat n
           \<and> OCR0B (ticks n p (INT0_vect p s)) =
               (if n < 32 then pwm ! 0 else if n < 96 then pwm ! 1 else pwm ! 2)))
   \<and> pwm ! 0 = 230 \<and> pwm ! 1 = 128 \<and> pwm ! 2 = 26"
  by (simp add: normal_ticks extended_ticks timeCounter_phase_trace OCR0B_phase_trace
      INT0_vect_started(3) pwm_def)

theorem duty_cycle_schedule_witness:
  "NORMAL 0 \<and> EXTENDED 16
   \<and> OCR0B (ticks 31 0 (INT0_vect 0 main_init)) = 230
   \<and> OCR0B (ticks 32 0 (INT0_vect 0 main_init)) = 128
   \<and> OCR0B (ticks 63 0 (INT0_vect 0 main_init)) = 128
   \<and> OCR0B (ticks 64 0 (INT0_vect 0 main_init)) = 26
   \<and> OCR0B (ticks 31 16 (INT0_vect 16 main_init)) = 230
   \<and> OCR0B (ticks 32 16 (INT0_vect 16 main_init)) = 128
   \<and> OCR0B (ticks 95 16 (INT0_vect 16 main_init)) = 128
   \<and> OCR0B (ticks 96 16 (INT0_vect 16 main_init)) = 26"
  using mode_samples(1,2)
    duty_cycle_schedule [of 0 main_init] duty_cycle_schedule [of 16 main_init]
  by simp

section \<open>Edges and ticks in single states\<close>

text \<open>
  C2: a Start edge while the water level reads 3 is to change no state variable.
  The handler falls short of this in the state a completed normal cycle leaves
  behind, where \<open>finished\<close> is 1 and the Start interrupt is enabled: no cycle starts
  and the machine stays inactive, but \<open>finished\<close> is cleared, because the statement
  that clears it stands after the block guarded by the mode test and not inside it.
\<close>

theorem invalid_start_clears_finished:
  "start_enabled (ticks 96 0 (INT0_vect 0 main_init))
   \<and> (3 AND 3) = (3::u8)
   \<and> \<not> active (ticks 96 0 (INT0_vect 0 main_init))
   \<and> \<not> active (fire Start 3 (ticks 96 0 (INT0_vect 0 main_init)))
   \<and> finished (ticks 96 0 (INT0_vect 0 main_init)) = 1
   \<and> finished (fire Start 3 (ticks 96 0 (INT0_vect 0 main_init))) = 0
   \<and> fire Start 3 (ticks 96 0 (INT0_vect 0 main_init)) \<noteq> ticks 96 0 (INT0_vect 0 main_init)"
proof -
  have d: "ticks 96 0 (INT0_vect 0 main_init) = (reset (INT0_vect 0 main_init))\<lparr>finished := 1\<rparr>"
    by (rule normal_done [OF mode_samples(1)]) simp
  have i: "\<not> EXTENDED 3 \<and> \<not> NORMAL 3"
    by (rule invalid_modes) simp
  have s: "fire Start 3 ((reset (INT0_vect 0 main_init))\<lparr>finished := 1\<rparr>)
             = (reset (INT0_vect 0 main_init))\<lparr>finished := 0\<rparr>"
    by (simp add: done_state INT0_vect_def i)
  have "finished (fire Start 3 ((reset (INT0_vect 0 main_init))\<lparr>finished := 1\<rparr>)) = 0"
    unfolding s by (simp add: done_state)
  moreover have "\<not> active (fire Start 3 ((reset (INT0_vect 0 main_init))\<lparr>finished := 1\<rparr>))"
    unfolding s by (rule not_active_reset)
  ultimately show ?thesis
    unfolding d by (auto simp add: done_state not_active_reset)
qed

text \<open>
  C5: the Reset handler, in any state, leaves the machine inactive with the counter
  at 0, the indicator lights off (\<open>PORTC = 0\<close>), the duty output off
  (\<open>OCR0B = 255\<close>), \<open>finished\<close> clear and the Start interrupt enabled.
\<close>

theorem reset_edge_effect:
  "\<not> active (INT1_vect s) \<and> timeCounter (INT1_vect s) = 0 \<and> PORTC (INT1_vect s) = 0
   \<and> OCR0B (INT1_vect s) = 255 \<and> finished (INT1_vect s) = 0
   \<and> start_enabled (INT1_vect s)"
  unfolding INT1_vect_def by (simp add: not_active_reset done_state)

text \<open>
  C6: a tick delivered to an active machine while the water level reads 3 changes
  nothing at all, so the counter, \<open>finished\<close>, the indicator lights and the duty
  output keep their values and the machine stays active.
\<close>

theorem invalid_tick_frozen:
  "active s \<Longrightarrow> (p AND 3) = 3 \<Longrightarrow> fire Tick p s = s \<and> active (fire Tick p s)"
  by (simp add: TIMER1_COMPA_vect_def invalid_modes)

theorem invalid_tick_frozen_witness:
  "active (INT0_vect 0 main_init) \<and> (3 AND 3) = (3::u8)
   \<and> fire Tick 3 (INT0_vect 0 main_init) = INT0_vect 0 main_init"
proof -
  have a: "active (INT0_vect 0 main_init)"
    by (rule INT0_vect_started) (simp add: mode_samples)
  have b: "(3 AND 3) = (3::u8)"
    by simp
  from invalid_tick_frozen [OF a b] a b show ?thesis
    by blast
qed

text \<open>
  C7: when the tick handler takes its last branch (the incremented counter is not
  below 128 in extended mode, not below 96 in normal mode), the state it leaves is
  the state the Reset handler would leave, with \<open>finished\<close> 1 where Reset has 0.
\<close>

theorem done_is_reset_but_finished:
  "(EXTENDED p \<and> \<not> timeCounter s + 1 < 128) \<or> (NORMAL p \<and> \<not> timeCounter s + 1 < 96) \<Longrightarrow>
     TIMER1_COMPA_vect p s = (INT1_vect s)\<lparr>finished := 1\<rparr>
     \<and> finished (TIMER1_COMPA_vect p s) = 1 \<and> finished (INT1_vect s) = 0"
proof (elim disjE conjE)
  assume "EXTENDED p" and "\<not> timeCounter s + 1 < 128"
  then show ?thesis
    by (simp add: TIMER1_COMPA_vect_def INT1_vect_def Let_def reset_def thresholds)
next
  assume "NORMAL p" and "\<not> timeCounter s + 1 < 96"
  then show ?thesis
    by (simp add: TIMER1_COMPA_vect_def INT1_vect_def Let_def reset_def thresholds
        NORMAL_not_EXTENDED)
qed

theorem done_is_reset_but_finished_witness:
  "NORMAL 0 \<and> \<not> timeCounter (ticks 95 0 (INT0_vect 0 main_init)) + 1 < 96
   \<and> TIMER1_COMPA_vect 0 (ticks 95 0 (INT0_vect 0 main_init)) =
       (INT1_vect (ticks 95 0 (INT0_vect 0 main_init)))\<lparr>finished := 1\<rparr>"
proof -
  have "timeCounter (ticks 95 0 (INT0_vect 0 main_init)) = 95"
    by (simp add: normal_ticks mode_samples timeCounter_phase_trace)
  then have c: "\<not> timeCounter (ticks 95 0 (INT0_vect 0 main_init)) + 1 < 96"
    by simp
  with mode_samples(1)
  have "(EXTENDED 0 \<and> \<not> timeCounter (ticks 95 0 (INT0_vect 0 main_init)) + 1 < 128)
      \<or> (NORMAL 0 \<and> \<not> timeCounter (ticks 95 0 (INT0_vect 0 main_init)) + 1 < 96)"
    by blast
  from done_is_reset_but_finished [OF this] c mode_samples(1) show ?thesis
    by blast
qed

section \<open>The display\<close>

lemma low_7_bits: "(x OR push_bit 7 d) AND 0x7F = x AND (0x7F::u8)"
proof -
  have m: "(0x7F::u8) = mask 7"
    by (simp add: mask_eq_exp_minus_1)
  show ?thesis
    unfolding m by (auto simp add: bit_eq_iff bit_simps)
qed

lemma segments_display_finished:
  "f \<noteq> 0 \<Longrightarrow> map_option segments (display i d f s) = Some 63"
  by (simp add: display_def segments_def low_7_bits)

lemma segments_display_3: "map_option segments (display 3 d 0 s) = Some 121"
  by (simp add: display_def segments_def seven_seg_def low_7_bits)

lemma segments_display_4: "map_option segments (display 4 d 0 s) = Some 84"
  by (simp add: display_def segments_def seven_seg_def low_7_bits)

text \<open>
  C9: when \<open>finished\<close> is not 0, \<open>display\<close> puts the same segment mask, 63, on the
  port for every index and either digit; when \<open>finished\<close> is 0, the masks for
  index 3 and index 4 are 121 and 84, which differ.
\<close>

theorem display_encoding:
  "(f \<noteq> 0 \<longrightarrow> map_option segments (display i d f s) = Some 63)
   \<and> map_option segments (display 3 d 0 s) = Some 121
   \<and> map_option segments (display 4 d' 0 s) = Some 84
   \<and> map_option segments (display 3 d 0 s) \<noteq> map_option segments (display 4 d' 0 s)"
  by (simp add: segments_display_finished segments_display_3 segments_display_4)

theorem display_encoding_witness:
  "(1::u8) \<noteq> 0 \<and> map_option segments (display 2 1 1 main_init) = Some 63
   \<and> map_option segments (display 200 0 1 main_init) = Some 63"
  using display_encoding [of 1 2 1 main_init] display_encoding [of 1 200 0 main_init]
  by simp

end
